theory Spec2Isabelle
  imports Main "HOL-Library.Word" "HOL-Library.AList" "HOL-Library.Char_ord" "HOL-Library.List_Lexorder"
begin

section \<open>The BRO-HDF5 table codec (bronhdf5.py)\<close>

text \<open>
  The module writes pandas tables into an HDF5 container and reads them back. The model
  has three layers: the values a table holds, the container (groups, datasets and
  attributes), and the functions of bronhdf5.py, each under its own name.

  What the libraries do is fixed as follows.
  \<^item> A numpy dtype is one of the constructors of \<open>dtype\<close>; the program only reads its
    name and compares it with the object dtype. A fixed-width byte-string dtype carries
    its width in bytes; width 0 is the dtype of the Python type \<open>bytes\<close>.
  \<^item> A column element is a primitive value or a nested table. Floating-point numbers are
    carried as their 64-bit pattern: the codec stores and reads them, it never computes
    with them. Every string is a byte-string, which is what the container returns.
  \<^item> A Series has the default index, so that \<open>col[0]\<close> is its first element, and a
    DataFrame has the method \<open>iteritems\<close> (pandas before 2.0).
  \<^item> The container returns a dataset's array and every attribute as they were stored, and
    lists the children of a group by name. Creating a child under a name that exists
    fails, as does using a dataset as a group or a group as a dataset, a key that is no
    string, or an array of the object dtype (\<open>H5Error\<close>); a missing child or attribute is
    a \<open>KeyError\<close>.
  \<^item> Where the libraries do something the model does not follow, the result is the value
    \<open>Unmodelled\<close>: a name that the container reads as a path (it contains a slash or a
    zero byte, is empty or is a dot), an object array of byte-strings given to the
    container, an attribute that is an empty array where a tag is tested, and an
    assignment to a DataFrame that pandas answers by rearranging the frame (a column
    label that occurs more than once, values assigned after empty columns, a column
    named as one of the metadata fields). No theorem below concludes \<open>Unmodelled\<close>.
\<close>

subsection \<open>Decimal numerals\<close>

definition digit_char :: "nat \<Rightarrow> char" where
  "digit_char d = ''0123456789'' ! d"

function str_nat :: "nat \<Rightarrow> string" where
  "str_nat n = (if n < 10 then [digit_char n] else str_nat (n div 10) @ [digit_char (n mod 10)])"
  by pat_completeness auto
termination
  by (relation "measure (\<lambda>n. n)") auto

declare str_nat.simps [simp del]

subsection \<open>Values, columns and tables\<close>

datatype dtype =
    Int8 | Int16 | Int32 | Int64
  | UInt8 | UInt16 | UInt32 | UInt64
  | Float16 | Float32 | Float64
  | Bool | Bytes nat | Object

text \<open>\<open>dtype.name\<close>: a byte-string dtype of width \<open>n\<close> is named \<open>bytes\<close> followed by its
  width in bits, and plainly \<open>bytes\<close> when it has no width.\<close>

fun dtype_name :: "dtype \<Rightarrow> string" where
  "dtype_name Int8 = ''int8''"
| "dtype_name Int16 = ''int16''"
| "dtype_name Int32 = ''int32''"
| "dtype_name Int64 = ''int64''"
| "dtype_name UInt8 = ''uint8''"
| "dtype_name UInt16 = ''uint16''"
| "dtype_name UInt32 = ''uint32''"
| "dtype_name UInt64 = ''uint64''"
| "dtype_name Float16 = ''float16''"
| "dtype_name Float32 = ''float32''"
| "dtype_name Float64 = ''float64''"
| "dtype_name Bool = ''bool''"
| "dtype_name (Bytes n) = (if n = 0 then ''bytes'' else ''bytes'' @ str_nat (8 * n))"
| "dtype_name Object = ''object''"

datatype prim = PInt int | PFloat "64 word" | PBool bool | PBytes string

datatype elem = Prim prim | Frame dataframe
and series = Series (col_name: string) (col_dtype: dtype) (col_values: "elem list")
and dataframe =
  DataFrame (df_columns: "series list")
    (VariableDescriptions: "string list option") (VariableUnits: "string list option")

text \<open>\<open>isinstance(z, DataFrame)\<close>.\<close>

fun is_DataFrame :: "elem \<Rightarrow> bool" where
  "is_DataFrame (Frame df) = True"
| "is_DataFrame (Prim p) = False"

text \<open>\<open>np.dtype(type(z))\<close>: the dtype numpy gives to the Python type of an element. A Python
  int is int64, a float float64, a bool bool, bytes the byte-string dtype without a width;
  any other class, DataFrame among them, is the object dtype.\<close>

fun np_dtype_of_type :: "elem \<Rightarrow> dtype" where
  "np_dtype_of_type (Prim (PInt i)) = Int64"
| "np_dtype_of_type (Prim (PFloat w)) = Float64"
| "np_dtype_of_type (Prim (PBool b)) = Bool"
| "np_dtype_of_type (Prim (PBytes s)) = Bytes 0"
| "np_dtype_of_type (Frame df) = Object"

datatype error =
    UnableToInfer string
  | AttributeError
  | KeyError string
  | IndexError
  | NotImplementedError
  | BadBronDatamodel "prim list"
  | ValueError
  | H5Error
  | Unmodelled

text \<open>\<open>UnableToInfer\<close> is the ValueError of \<open>infer_column_matlab_type\<close>, with the name of
  the column; \<open>BadBronDatamodel\<close> is the Exception of \<open>parse_bronhdf\<close>, with the column
  names; \<open>NotImplementedError\<close> is the version gate's; \<open>ValueError\<close> is the one that numpy
  and pandas raise.\<close>

subsection \<open>The type tagger\<close>

definition infer_column_matlab_type :: "series \<Rightarrow> error + string" where
  "infer_column_matlab_type col =
     (case
        (if list_ex is_DataFrame (col_values col) then Inr ''table''
         else if col_dtype col \<noteq> Object then Inr (dtype_name (col_dtype col))
         else
           (let col_dtypes = set (map np_dtype_of_type (col_values col)) in
            if card col_dtypes = 1
            then Inr (dtype_name (np_dtype_of_type (col_values col ! 0)))
            else Inl (UnableToInfer (col_name col))))
      of Inl e \<Rightarrow> Inl e
       | Inr ml_type \<Rightarrow> Inr (if ml_type = ''bytes'' then ''cellstr'' else ml_type))"

subsection \<open>The container\<close>

text \<open>An attribute holds a byte-string, a text string or an array of integers (the version
  pair). A node is a dataset (attributes, element type and array) or a group (attributes
  and named children).\<close>

datatype attr = ABytes string | AStr string | AInts "int list"

datatype hnode =
    Dataset "(string \<times> attr) list" dtype "prim list"
  | Group "(string \<times> attr) list" "(string \<times> hnode) list"

fun attrs_of :: "hnode \<Rightarrow> (string \<times> attr) list" where
  "attrs_of (Dataset a dt data) = a"
| "attrs_of (Group a cs) = a"

fun children :: "hnode \<Rightarrow> (string \<times> hnode) list" where
  "children (Group a cs) = cs"
| "children (Dataset a dt data) = []"

text \<open>\<open>hdfgroup.keys()\<close>: the names of the children, in the order of the names.\<close>

definition keys :: "hnode \<Rightarrow> string list" where
  "keys g = sort (map fst (children g))"

text \<open>A name that the container takes as the name of one child, not as a path.\<close>

definition simple_name :: "string \<Rightarrow> bool" where
  "simple_name k \<longleftrightarrow> k \<noteq> [] \<and> k \<noteq> ''.'' \<and> CHR ''/'' \<notin> set k \<and> CHR 0x00 \<notin> set k"

text \<open>\<open>node.attrs.create(name, value)\<close> overwrites an attribute of that name.\<close>

fun attrs_create :: "hnode \<Rightarrow> string \<Rightarrow> attr \<Rightarrow> hnode" where
  "attrs_create (Group a cs) k v = Group (AList.update k v a) cs"
| "attrs_create (Dataset a dt data) k v = Dataset (AList.update k v a) dt data"

text \<open>\<open>node.attrs[name]\<close>.\<close>

definition attrs_get :: "hnode \<Rightarrow> string \<Rightarrow> error + attr" where
  "attrs_get node k = (case map_of (attrs_of node) k of None \<Rightarrow> Inl (KeyError k) | Some v \<Rightarrow> Inr v)"

text \<open>\<open>hdfgroup[name]\<close>.\<close>

fun getitem :: "hnode \<Rightarrow> string \<Rightarrow> error + hnode" where
  "getitem (Group a cs) k =
     (if simple_name k
      then (case map_of cs k of None \<Rightarrow> Inl (KeyError k) | Some n \<Rightarrow> Inr n)
      else Inl Unmodelled)"
| "getitem (Dataset a dt data) k = Inl H5Error"

text \<open>\<open>node[:]\<close>: the array of a dataset, with its element type.\<close>

fun read_all :: "hnode \<Rightarrow> error + dtype \<times> prim list" where
  "read_all (Dataset a dt data) = Inr (dt, data)"
| "read_all (Group a cs) = Inl H5Error"

text \<open>\<open>hdfgroup.create_group(name)\<close> followed by the writes into the new group: the model
  checks the name first, as the call does, and attaches the finished child.
  \<open>create_error\<close> is what the container says to a new name.\<close>

fun name_free :: "hnode \<Rightarrow> string \<Rightarrow> bool" where
  "name_free (Group a cs) k = (k \<notin> set (map fst cs))"
| "name_free (Dataset a dt data) k = False"

definition create_error :: "hnode \<Rightarrow> string \<Rightarrow> error option" where
  "create_error hdfgroup k =
     (if \<not> simple_name k then Some Unmodelled
      else if name_free hdfgroup k then None
      else Some H5Error)"

fun add_child :: "hnode \<Rightarrow> string \<Rightarrow> hnode \<Rightarrow> hnode" where
  "add_child (Group a cs) k n = Group a (cs @ [(k, n)])"
| "add_child (Dataset a dt data) k n = Dataset a dt data"

definition empty_group :: hnode where
  "empty_group = Group [] []"

fun is_bytes :: "prim \<Rightarrow> bool" where
  "is_bytes (PBytes s) = True"
| "is_bytes p = False"

text \<open>\<open>dataset = hdfgroup.create_dataset(name, data=...)\<close> and
  \<open>dataset.attrs.create("matlab_type", np.array(tag))\<close>. The container has no type for an
  array of the object dtype.\<close>

definition create_dataset :: "hnode \<Rightarrow> string \<Rightarrow> dtype \<Rightarrow> prim list \<Rightarrow> string \<Rightarrow> error + hnode" where
  "create_dataset hdfgroup k dt data tag =
     (case create_error hdfgroup k of
        Some e \<Rightarrow> Inl e
      | None \<Rightarrow>
          if dt = Object then
            (if data \<noteq> [] \<and> list_all is_bytes data then Inl Unmodelled else Inl H5Error)
          else Inr (add_child hdfgroup k (Dataset [(''matlab_type'', ABytes tag)] dt data)))"

text \<open>\<open>f"Element{i}"\<close>.\<close>

definition element_name :: "nat \<Rightarrow> string" where
  "element_name i = ''Element'' @ str_nat i"

subsection \<open>The table encoder\<close>

text \<open>\<open>col.values\<close> of a column that holds no table.\<close>

fun values_data :: "elem list \<Rightarrow> prim list" where
  "values_data [] = []"
| "values_data (Prim p # zs) = p # values_data zs"
| "values_data (Frame df # zs) = values_data zs"

text \<open>The array numpy makes of a list of byte-strings: the width is the greatest length,
  the zero bytes at the end of an entry are not part of its value, and the empty list
  gives an empty array of floats.\<close>

definition np_bytes :: "string \<Rightarrow> string" where
  "np_bytes s = rev (dropWhile (\<lambda>c. c = CHR 0x00) (rev s))"

definition np_bytes_array :: "string list \<Rightarrow> dtype \<times> prim list" where
  "np_bytes_array xs =
     (if xs = [] then (Float64, [])
      else (Bytes (foldr max (map length xs) 1), map (\<lambda>s. PBytes (np_bytes s)) xs))"

text \<open>\<open>df.VariableDescriptions\<close> or, when the table has no such attribute,
  \<open>np.array([], dtype=bytes)\<close>.\<close>

definition metadata_or_empty :: "string list option \<Rightarrow> dtype \<times> prim list" where
  "metadata_or_empty m = (case m of None \<Rightarrow> (Bytes 1, []) | Some xs \<Rightarrow> np_bytes_array xs)"

text \<open>\<open>write_df_metadata(hdfgroup, df)\<close>. The second argument is whatever value the caller
  passes: a value that is no DataFrame has no \<open>columns\<close>.\<close>

fun write_df_metadata :: "hnode \<Rightarrow> elem \<Rightarrow> error + hnode" where
  "write_df_metadata hdfgroup (Prim p) = Inl AttributeError"
| "write_df_metadata hdfgroup (Frame df) =
     (let g0 = attrs_create hdfgroup ''matlab_type'' (ABytes ''table'');
          colnames = np_bytes_array (map col_name (df_columns df));
          vd = metadata_or_empty (VariableDescriptions df);
          vu = metadata_or_empty (VariableUnits df)
      in case create_dataset g0 ''VariableNames'' (fst colnames) (snd colnames) ''cellstr'' of
           Inl e \<Rightarrow> Inl e
         | Inr g1 \<Rightarrow>
             (case create_dataset g1 ''VariableDescriptions'' (fst vd) (snd vd) ''cellstr'' of
                Inl e \<Rightarrow> Inl e
              | Inr g2 \<Rightarrow> create_dataset g2 ''VariableUnits'' (fst vu) (snd vu) ''cellstr''))"

text \<open>\<open>write_df\<close> and \<open>write_df_column\<close>, with their two loops: \<open>write_columns\<close> is the loop
  of \<open>write_df\<close> over the columns, \<open>write_elements\<close> the loop of \<open>write_df_column\<close> over
  \<open>enumerate(col, start=1)\<close>.\<close>

fun write_df :: "hnode \<Rightarrow> elem \<Rightarrow> error + hnode"
and write_columns :: "hnode \<Rightarrow> series list \<Rightarrow> error + hnode"
and write_df_column :: "hnode \<Rightarrow> series \<Rightarrow> error + hnode"
and write_elements :: "hnode \<Rightarrow> nat \<Rightarrow> elem list \<Rightarrow> error + hnode" where
  "write_df hdfgroup (Prim p) = write_df_metadata hdfgroup (Prim p)"
| "write_df hdfgroup (Frame (DataFrame cols vd vu)) =
     (case write_df_metadata hdfgroup (Frame (DataFrame cols vd vu)) of
        Inl e \<Rightarrow> Inl e
      | Inr g \<Rightarrow> write_columns g cols)"
| "write_columns hdfgroup [] = Inr hdfgroup"
| "write_columns hdfgroup (col # cols) =
     (case write_df_column hdfgroup col of
        Inl e \<Rightarrow> Inl e
      | Inr g \<Rightarrow> write_columns g cols)"
| "write_df_column hdfgroup (Series nm dt vals) =
     (case infer_column_matlab_type (Series nm dt vals) of
        Inl e \<Rightarrow> Inl e
      | Inr ml_type \<Rightarrow>
          if ml_type = ''table'' then
            (case create_error hdfgroup nm of
               Some e \<Rightarrow> Inl e
             | None \<Rightarrow>
               (case write_elements (attrs_create empty_group ''matlab_type'' (ABytes ''table'')) 1 vals of
                  Inl e \<Rightarrow> Inl e
                | Inr col_group \<Rightarrow>
                    (case write_df_metadata col_group
                            (Frame (DataFrame [Series nm dt vals] None None)) of
                       Inl e \<Rightarrow> Inl e
                     | Inr col_group' \<Rightarrow> Inr (add_child hdfgroup nm col_group'))))
          else create_dataset hdfgroup nm dt (values_data vals) ml_type)"
| "write_elements col_group i [] = Inr col_group"
| "write_elements col_group i (z # zs) =
     (case create_error col_group (element_name i) of
        Some e \<Rightarrow> Inl e
      | None \<Rightarrow>
        (case write_df empty_group z of
           Inl e \<Rightarrow> Inl e
         | Inr g \<Rightarrow> write_elements (add_child col_group (element_name i) g) (Suc i) zs))"

subsection \<open>The table decoder\<close>

text \<open>\<open>hdfgroup[name][:]\<close>.\<close>

definition read_dataset :: "hnode \<Rightarrow> string \<Rightarrow> error + dtype \<times> prim list" where
  "read_dataset hdfgroup k = (case getitem hdfgroup k of Inl e \<Rightarrow> Inl e | Inr n \<Rightarrow> read_all n)"

text \<open>\<open>data.astype(bytes)\<close> leaves a byte-string as it is and prints a number; how numpy
  prints a number is the parameter \<open>repr\<close>.\<close>

fun astype_bytes :: "(prim \<Rightarrow> string) \<Rightarrow> prim \<Rightarrow> string" where
  "astype_bytes repr (PBytes s) = s"
| "astype_bytes repr p = repr p"

text \<open>The body of the loop over \<open>("VariableDescriptions", "VariableUnits")\<close>; \<open>n\<close> is
  \<open>len(colnames)\<close>.\<close>

definition read_metadata :: "(prim \<Rightarrow> string) \<Rightarrow> hnode \<Rightarrow> string \<Rightarrow> nat \<Rightarrow> error + string list" where
  "read_metadata repr hdfgroup metaname n =
     (case read_dataset hdfgroup metaname of
        Inl e \<Rightarrow> Inl e
      | Inr (dt, data) \<Rightarrow>
          if length data > 0 then Inr (map (astype_bytes repr) data) else Inr (replicate n []))"

text \<open>\<open>hdfgroup[colname]\<close> for an entry of the \<open>VariableNames\<close> array: a key that is no
  string is refused by the container.\<close>

fun getitem_key :: "hnode \<Rightarrow> prim \<Rightarrow> error + hnode" where
  "getitem_key hdfgroup (PBytes s) = getitem hdfgroup s"
| "getitem_key hdfgroup p = Inl H5Error"

text \<open>The \<open>for ... else\<close> loop that finds \<open>nrows\<close>: the size of the first column that is a
  dataset; without one, the Exception. The second argument is the whole list, for the
  message.\<close>

fun find_nrows :: "hnode \<Rightarrow> prim list \<Rightarrow> prim list \<Rightarrow> error + nat" where
  "find_nrows hdfgroup colnames [] = Inl (BadBronDatamodel colnames)"
| "find_nrows hdfgroup colnames (colname # rest) =
     (case getitem_key hdfgroup colname of
        Inl e \<Rightarrow> Inl e
      | Inr (Dataset a dt data) \<Rightarrow> Inr (length data)
      | Inr (Group a cs) \<Rightarrow> find_nrows hdfgroup colnames rest)"

text \<open>\<open>DataFrame([])\<close> with both metadata fields set to the empty list.\<close>

definition empty_df :: dataframe where
  "empty_df = DataFrame [] (Some []) (Some [])"

text \<open>The test \<open>ml_type != b"table" and ml_type != "table"\<close>. A byte-string and a text
  string are compared as strings; an array is compared entry by entry, and the truth
  value of the result is an error when it has more than one entry.\<close>

fun tag_is_not_table :: "attr \<Rightarrow> error + bool" where
  "tag_is_not_table (ABytes t) = Inr (t \<noteq> ''table'')"
| "tag_is_not_table (AStr t) = Inr (t \<noteq> ''table'')"
| "tag_is_not_table (AInts []) = Inl Unmodelled"
| "tag_is_not_table (AInts [v]) = Inr True"
| "tag_is_not_table (AInts (v # w # vs)) = Inl ValueError"

text \<open>\<open>df[colname] = values\<close> on the frame made by \<open>DataFrame(columns=colnames)\<close>; \<open>df\<close> is
  the list of the columns assigned so far. The first assignment fixes the number of rows;
  values of another length are refused.\<close>

definition setitem :: "prim list \<Rightarrow> series list \<Rightarrow> series \<Rightarrow> error + series list" where
  "setitem colnames df col =
     (if count_list colnames (PBytes (col_name col)) \<noteq> 1 then Inl Unmodelled
      else if df = [] then Inr [col]
      else if length (col_values col) = length (col_values (hd df)) then Inr (df @ [col])
      else if length (col_values (hd df)) = 0 then Inl Unmodelled
      else Inl ValueError)"

text \<open>A loop that computes a column for each name and assigns it, in order; it stops at
  the first error.\<close>

fun loop_columns ::
  "(prim \<Rightarrow> error + series) \<Rightarrow> (series list \<Rightarrow> series \<Rightarrow> error + series list) \<Rightarrow>
     prim list \<Rightarrow> series list \<Rightarrow> error + series list" where
  "loop_columns f assign [] df = Inr df"
| "loop_columns f assign (colname # rest) df =
     (case f colname of
        Inl e \<Rightarrow> Inl e
      | Inr col \<Rightarrow>
          (case assign df col of
             Inl e \<Rightarrow> Inl e
           | Inr df' \<Rightarrow> loop_columns f assign rest df'))"

lemma loop_columns_cong [fundef_cong]:
  assumes "cs = cs'" and "\<And>c. c \<in> set cs' \<Longrightarrow> f c = g c"
  shows "loop_columns f assign cs df = loop_columns g assign cs' df"
  unfolding assms(1) using assms(2)
  by (induction cs' arbitrary: df) (auto split: sum.splits)

text \<open>A list of results, as a comprehension produces them: the first error wins.\<close>

fun sequence_sum :: "('e + 'a) list \<Rightarrow> 'e + 'a list" where
  "sequence_sum [] = Inr []"
| "sequence_sum (x # xs) =
     (case x of
        Inl e \<Rightarrow> Inl e
      | Inr v \<Rightarrow> (case sequence_sum xs of Inl e \<Rightarrow> Inl e | Inr vs \<Rightarrow> Inr (v # vs)))"

lemma getitem_size:
  assumes "getitem g k = Inr n"
  shows "size n < size g"
proof (cases g)
  case (Dataset a dt data)
  with assms show ?thesis by simp
next
  case (Group a cs)
  with assms have "(k, n) \<in> set cs"
    by (auto split: option.splits if_splits dest: map_of_SomeD)
  then have "size n < Suc (size_list (size_prod (\<lambda>_. 0) size) cs)"
    by (induction cs) auto
  with Group show ?thesis by simp
qed

text \<open>\<open>parse_bronhdf\<close>. The comprehension over \<open>range(1, nrows + 1)\<close> is the inner \<open>map\<close>;
  the list of tables it yields becomes a column of the object dtype, and of the float
  dtype when it is empty. Setting the two metadata fields on a frame that has a column
  of that name is an assignment to the column.\<close>

function parse_bronhdf :: "(prim \<Rightarrow> string) \<Rightarrow> hnode \<Rightarrow> error + dataframe" where
  "parse_bronhdf repr hdfgroup =
     (case read_dataset hdfgroup ''VariableNames'' of
        Inl e \<Rightarrow> Inl e
      | Inr (ndt, colnames) \<Rightarrow>
          if length colnames = 0 \<or> (length colnames = 1 \<and> colnames ! 0 = PBytes ''Var1'')
          then Inr empty_df
          else
            (case read_metadata repr hdfgroup ''VariableDescriptions'' (length colnames) of
               Inl e \<Rightarrow> Inl e
             | Inr vd \<Rightarrow>
            (case read_metadata repr hdfgroup ''VariableUnits'' (length colnames) of
               Inl e \<Rightarrow> Inl e
             | Inr vu \<Rightarrow>
            (case find_nrows hdfgroup colnames colnames of
               Inl e \<Rightarrow> Inl e
             | Inr nrows \<Rightarrow>
            (case loop_columns (\<lambda>colname.
                     case colname of
                       PBytes s \<Rightarrow>
                        (case getitem hdfgroup s of
                           Inl e \<Rightarrow> Inl e
                         | Inr node \<Rightarrow>
                            (case attrs_get node ''matlab_type'' of
                               Inl e \<Rightarrow> Inl e
                             | Inr ml_type \<Rightarrow>
                                (case tag_is_not_table ml_type of
                                   Inl e \<Rightarrow> Inl e
                                 | Inr plain \<Rightarrow>
                                     if plain then
                                       (case read_all node of
                                          Inl e \<Rightarrow> Inl e
                                        | Inr (dt, data) \<Rightarrow> Inr (Series s dt (map Prim data)))
                                     else
                                       (case sequence_sum (map (\<lambda>i_row.
                                                case getitem node (element_name i_row) of
                                                  Inl e \<Rightarrow> Inl e
                                                | Inr el \<Rightarrow> parse_bronhdf repr el) [1..<nrows + 1]) of
                                          Inl e \<Rightarrow> Inl e
                                        | Inr colcontents \<Rightarrow>
                                            Inr (Series s (if colcontents = [] then Float64 else Object)
                                                   (map Frame colcontents))))))
                     | _ \<Rightarrow> Inl H5Error)
                   (setitem colnames) colnames [] of
               Inl e \<Rightarrow> Inl e
             | Inr cols \<Rightarrow>
                 if PBytes ''VariableDescriptions'' \<in> set colnames
                    \<or> PBytes ''VariableUnits'' \<in> set colnames
                 then Inl Unmodelled
                 else Inr (DataFrame cols (Some vd) (Some vu)))))))"
  by pat_completeness auto
termination
  apply (relation "measure (\<lambda>(repr, g). size g)")
   apply simp
  apply (auto dest!: getitem_size)
  done

declare parse_bronhdf.simps [simp del]

subsection \<open>The version gate and the collection decoder\<close>

definition BRON_VERSION :: "int \<times> int" where
  "BRON_VERSION = (2, 0)"

text \<open>\<open>value[0] != major\<close> for an attribute value: the first entry of an integer array, the
  first byte of a byte-string (a number), the first character of a text string (never
  equal to a number); an empty value has no first entry.\<close>

fun item0_differs :: "attr \<Rightarrow> int \<Rightarrow> error + bool" where
  "item0_differs (AInts []) m = Inl IndexError"
| "item0_differs (AInts (v # vs)) m = Inr (v \<noteq> m)"
| "item0_differs (ABytes []) m = Inl IndexError"
| "item0_differs (ABytes (c # cs)) m = Inr (of_char c \<noteq> m)"
| "item0_differs (AStr []) m = Inl IndexError"
| "item0_differs (AStr (c # cs)) m = Inr True"

text \<open>\<open>_check_bron_version\<close>.\<close>

definition check_bron_version :: "hnode \<Rightarrow> error + unit" where
  "check_bron_version hdfgroup =
     (case map_of (attrs_of hdfgroup) ''BRON_VERSION'' of
        None \<Rightarrow> Inl (KeyError ''BRON_VERSION'')
      | Some v \<Rightarrow>
          (case item0_differs v (fst BRON_VERSION) of
             Inl e \<Rightarrow> Inl e
           | Inr differs \<Rightarrow> if differs then Inl NotImplementedError else Inr ()))"

text \<open>Python's \<open>int(s)\<close> on a string: surrounding whitespace is dropped, a sign may come
  first, and the digits may be separated by single underscores. \<open>None\<close> is the
  ValueError.\<close>

definition is_space :: "char \<Rightarrow> bool" where
  "is_space c = ((of_char c :: nat) \<in> set [9, 10, 11, 12, 13, 28, 29, 30, 31, 32, 133, 160])"

definition is_digit :: "char \<Rightarrow> bool" where
  "is_digit c = (48 \<le> (of_char c :: nat) \<and> (of_char c :: nat) \<le> 57)"

definition digit_val :: "char \<Rightarrow> nat" where
  "digit_val c = of_char c - 48"

fun digits_value :: "nat \<Rightarrow> string \<Rightarrow> nat option" where
  "digits_value acc [] = Some acc"
| "digits_value acc (c # cs) =
     (if is_digit c then digits_value (acc * 10 + digit_val c) cs
      else if c = CHR ''_'' then
        (case cs of [] \<Rightarrow> None | d # ds \<Rightarrow> if is_digit d then digits_value acc cs else None)
      else None)"

definition nat_literal :: "string \<Rightarrow> nat option" where
  "nat_literal cs = (case cs of [] \<Rightarrow> None | c # ds \<Rightarrow> if is_digit c then digits_value 0 cs else None)"

definition strip :: "string \<Rightarrow> string" where
  "strip s = rev (dropWhile is_space (rev (dropWhile is_space s)))"

definition py_int :: "string \<Rightarrow> int option" where
  "py_int s =
     (case strip s of
        [] \<Rightarrow> None
      | c # cs \<Rightarrow>
          if c = CHR ''-'' then map_option (\<lambda>n. - int n) (nat_literal cs)
          else if c = CHR ''+'' then map_option int (nat_literal cs)
          else map_option int (nat_literal (c # cs)))"

record GMW =
  History :: dataframe
  Tube :: dataframe
  Well :: dataframe

text \<open>The keys in the order of the loop: \<open>sorted(hdfgroup.keys())\<close>, replaced by
  \<open>sorted(hdfgroup.keys(), key=int)\<close> unless \<open>int\<close> raises on one of the keys.\<close>

definition sorted_gkeys :: "hnode \<Rightarrow> string list" where
  "sorted_gkeys hdfgroup =
     (if list_all (\<lambda>k. py_int k \<noteq> None) (keys hdfgroup)
      then sort_key (\<lambda>k. the (py_int k)) (keys hdfgroup)
      else sort (keys hdfgroup))"

text \<open>The loop \<open>for k in gkeys\<close>; the dictionary \<open>gmws\<close> keeps its keys in the order of their
  first insertion.\<close>

fun read_gmws :: "(prim \<Rightarrow> string) \<Rightarrow> hnode \<Rightarrow> string list \<Rightarrow> (string \<times> GMW) list \<Rightarrow> error + (string \<times> GMW) list" where
  "read_gmws repr hdfgroup [] gmws = Inr gmws"
| "read_gmws repr hdfgroup (k # ks) gmws =
     (case getitem hdfgroup k of
        Inl e \<Rightarrow> Inl e
      | Inr grp \<Rightarrow>
     (case getitem grp ''History'' of
        Inl e \<Rightarrow> Inl e
      | Inr h \<Rightarrow>
     (case parse_bronhdf repr h of
        Inl e \<Rightarrow> Inl e
      | Inr history \<Rightarrow>
     (case getitem grp ''Tube'' of
        Inl e \<Rightarrow> Inl e
      | Inr t \<Rightarrow>
     (case parse_bronhdf repr t of
        Inl e \<Rightarrow> Inl e
      | Inr tube \<Rightarrow>
     (case getitem grp ''Well'' of
        Inl e \<Rightarrow> Inl e
      | Inr w \<Rightarrow>
     (case parse_bronhdf repr w of
        Inl e \<Rightarrow> Inl e
      | Inr well \<Rightarrow>
          read_gmws repr hdfgroup ks
            (AList.update k \<lparr>History = history, Tube = tube, Well = well\<rparr> gmws))))))))"

definition read_bron2_to_gmws :: "(prim \<Rightarrow> string) \<Rightarrow> hnode \<Rightarrow> error + (string \<times> GMW) list" where
  "read_bron2_to_gmws repr hdfgroup =
     (case check_bron_version hdfgroup of
        Inl e \<Rightarrow> Inl e
      | Inr u \<Rightarrow> read_gmws repr hdfgroup (sorted_gkeys hdfgroup) [])"

section \<open>Facts about names\<close>

lemma digit_char_inj:
  assumes "a < 10" and "b < 10" and "digit_char a = digit_char b"
  shows "a = b"
proof -
  have "distinct ''0123456789''" by simp
  moreover have "a < length ''0123456789''" "b < length ''0123456789''"
    using assms by simp_all
  ultimately show ?thesis
    using assms(3) unfolding digit_char_def by (simp only: nth_eq_iff_index_eq)
qed

lemma digit_char_digit: "d < 10 \<Longrightarrow> digit_char d \<in> set ''0123456789''"
  unfolding digit_char_def by (intro nth_mem) simp

lemma str_nat_not_Nil: "str_nat n \<noteq> []"
  by (subst str_nat.simps) simp

lemma last_str_nat: "last (str_nat n) = digit_char (n mod 10)"
  by (subst str_nat.simps) simp

lemma butlast_str_nat: "butlast (str_nat n) = (if n < 10 then [] else str_nat (n div 10))"
  by (subst str_nat.simps) simp

lemma str_nat_inj: "str_nat m = str_nat n \<Longrightarrow> m = n"
proof (induction m arbitrary: n rule: str_nat.induct)
  case (1 m)
  from "1.prems" have "last (str_nat m) = last (str_nat n)" by simp
  then have "digit_char (m mod 10) = digit_char (n mod 10)"
    by (simp only: last_str_nat)
  then have mod: "m mod 10 = n mod 10"
    by (intro digit_char_inj) simp_all
  from "1.prems" have bl: "butlast (str_nat m) = butlast (str_nat n)" by simp
  show ?case
  proof (cases "m < 10")
    case True
    with bl have "n < 10"
      using str_nat_not_Nil [of "n div 10"]
      by (auto simp: butlast_str_nat split: if_splits)
    with True mod show ?thesis by simp
  next
    case False
    with bl have n: "\<not> n < 10" and "str_nat (m div 10) = str_nat (n div 10)"
      using str_nat_not_Nil [of "n div 10"] str_nat_not_Nil [of "m div 10"]
      by (auto simp: butlast_str_nat split: if_splits)
    with "1.IH" False have "m div 10 = n div 10" by simp
    with mod show ?thesis
      by (metis div_mult_mod_eq)
  qed
qed

lemma str_nat_digits: "set (str_nat n) \<subseteq> set ''0123456789''"
proof (induction n rule: str_nat.induct)
  case (1 n)
  show ?case
  proof (cases "n < 10")
    case True
    then show ?thesis
      using digit_char_digit [of n] by (subst str_nat.simps) simp
  next
    case False
    with 1 have "set (str_nat (n div 10)) \<subseteq> set ''0123456789''" by simp
    moreover have "digit_char (n mod 10) \<in> set ''0123456789''"
      by (intro digit_char_digit) simp
    ultimately show ?thesis
      using False by (subst str_nat.simps) simp
  qed
qed

lemma dtype_name_bytes: "dtype_name d = ''bytes'' \<longleftrightarrow> d = Bytes 0"
  using str_nat_not_Nil by (cases d) auto

lemma dtype_name_not_table: "dtype_name d \<noteq> ''table''"
  by (cases d) simp_all

section \<open>The type tagger\<close>

text \<open>
  C3. The claim: the tag \<open>table\<close> is returned only when every element of the column is a
  nested table, and a column that mixes nested tables with other values fails tagging with
  the inference error. The code tests \<open>any(isinstance(z, DataFrame) for z in col)\<close>: on the
  object column \<open>c\<close> holding a one-column table followed by the integer 1 the tagger returns
  \<open>table\<close> without an error, and \<open>write_df_column\<close> then fails with the AttributeError of
  \<open>write_df_metadata\<close> on the integer, not with the inference error.
\<close>

theorem mixed_table_column_tagged_table:
  "infer_column_matlab_type
     (Series ''c'' Object [Frame (DataFrame [Series ''x'' Int64 [Prim (PInt 1)]] None None), Prim (PInt 1)])
     = Inr ''table''
   \<and> write_df_column empty_group
     (Series ''c'' Object [Frame (DataFrame [Series ''x'' Int64 [Prim (PInt 1)]] None None), Prim (PInt 1)])
     = Inl AttributeError"
  by (simp add: infer_column_matlab_type_def empty_group_def create_dataset_def
      create_error_def simple_name_def metadata_or_empty_def np_bytes_array_def np_bytes_def
      element_name_def str_nat.simps digit_char_def)

text \<open>
  C7, as amended. For every column of the object dtype that holds no nested table: when
  its elements have exactly one distinct type the tagger returns the name of that type,
  \<open>cellstr\<close> in place of \<open>bytes\<close>; when they have more than one it fails with the inference
  error that carries the name of the column. The tagger is a function of the column alone,
  so tagging a column twice gives the same result.
\<close>

theorem infer_object_column:
  assumes "col_dtype col = Object" and "\<not> list_ex is_DataFrame (col_values col)"
  shows "(card (set (map np_dtype_of_type (col_values col))) = 1 \<longrightarrow>
            infer_column_matlab_type col =
              Inr (if np_dtype_of_type (col_values col ! 0) = Bytes 0 then ''cellstr''
                   else dtype_name (np_dtype_of_type (col_values col ! 0))))
       \<and> (card (set (map np_dtype_of_type (col_values col))) > 1 \<longrightarrow>
            infer_column_matlab_type col = Inl (UnableToInfer (col_name col)))"
  using assms by (simp add: infer_column_matlab_type_def dtype_name_bytes)

theorem infer_object_column_witness:
  "infer_column_matlab_type (Series ''c'' Object [Prim (PBytes ''a''), Prim (PBytes ''b'')]) = Inr ''cellstr''
   \<and> infer_column_matlab_type (Series ''d'' Object [Prim (PInt 1), Prim (PInt 2)]) = Inr ''int64''
   \<and> infer_column_matlab_type (Series ''e'' Object [Prim (PInt 1), Prim (PBytes ''a'')]) = Inl (UnableToInfer ''e'')"
  using infer_object_column [of "Series ''c'' Object [Prim (PBytes ''a''), Prim (PBytes ''b'')]"]
    infer_object_column [of "Series ''d'' Object [Prim (PInt 1), Prim (PInt 2)]"]
    infer_object_column [of "Series ''e'' Object [Prim (PInt 1), Prim (PBytes ''a'')]"]
  by simp

text \<open>
  C7 as stated, for every column of the object dtype, fails on the columns that hold a
  nested table. The object column \<open>c\<close> of one table has one distinct element type, whose
  name is \<open>object\<close>, and is tagged \<open>table\<close>; the object column \<open>m\<close> of a table and an integer
  has two distinct element types and is tagged \<open>table\<close> with no error.
\<close>

theorem object_column_of_tables_counterexample:
  "col_dtype (Series ''c'' Object [Frame (DataFrame [] None None)]) = Object
   \<and> card (set (map np_dtype_of_type (col_values (Series ''c'' Object [Frame (DataFrame [] None None)])))) = 1
   \<and> dtype_name (np_dtype_of_type (col_values (Series ''c'' Object [Frame (DataFrame [] None None)]) ! 0)) = ''object''
   \<and> infer_column_matlab_type (Series ''c'' Object [Frame (DataFrame [] None None)]) = Inr ''table''
   \<and> col_dtype (Series ''m'' Object [Frame (DataFrame [] None None), Prim (PInt 1)]) = Object
   \<and> card (set (map np_dtype_of_type (col_values (Series ''m'' Object [Frame (DataFrame [] None None), Prim (PInt 1)])))) = 2
   \<and> infer_column_matlab_type (Series ''m'' Object [Frame (DataFrame [] None None), Prim (PInt 1)]) = Inr ''table''"
  by (simp add: infer_column_matlab_type_def)

section \<open>The version gate\<close>

text \<open>
  C4. Decoding a collection starts with the version gate. A root without the attribute
  \<open>BRON_VERSION\<close> fails with the KeyError of the missing version; a root whose version pair
  has a major component other than 2 fails with NotImplementedError; a root with major
  component 2 passes the gate for every minor component, and only then are the children
  read. In the first two cases the result is the gate's error whatever the root contains.
\<close>

theorem version_gate:
  "(map_of (attrs_of root) ''BRON_VERSION'' = None \<longrightarrow>
      check_bron_version root = Inl (KeyError ''BRON_VERSION'')
      \<and> read_bron2_to_gmws repr root = Inl (KeyError ''BRON_VERSION''))
   \<and> (map_of (attrs_of root) ''BRON_VERSION'' = Some (AInts [major, minor]) \<and> major \<noteq> 2 \<longrightarrow>
      check_bron_version root = Inl NotImplementedError
      \<and> read_bron2_to_gmws repr root = Inl NotImplementedError)
   \<and> (map_of (attrs_of root) ''BRON_VERSION'' = Some (AInts [2, minor]) \<longrightarrow>
      check_bron_version root = Inr ()
      \<and> read_bron2_to_gmws repr root = read_gmws repr root (sorted_gkeys root) [])"
  by (simp add: check_bron_version_def read_bron2_to_gmws_def BRON_VERSION_def)

theorem version_gate_witness:
  "read_bron2_to_gmws (\<lambda>p. []) (Group [] [(''1'', Group [] [])]) = Inl (KeyError ''BRON_VERSION'')
   \<and> read_bron2_to_gmws (\<lambda>p. []) (Group [(''BRON_VERSION'', AInts [3, 0])] [(''1'', Group [] [])])
       = Inl NotImplementedError
   \<and> check_bron_version (Group [(''BRON_VERSION'', AInts [2, 7])] [(''1'', Group [] [])]) = Inr ()"
  using version_gate [where root = "Group [] [(''1'', Group [] [])]" and repr = "\<lambda>p. []"]
    version_gate [where root = "Group [(''BRON_VERSION'', AInts [3, 0])] [(''1'', Group [] [])]"
      and major = 3 and minor = 0 and repr = "\<lambda>p. []"]
    version_gate [where root = "Group [(''BRON_VERSION'', AInts [2, 7])] [(''1'', Group [] [])]"
      and minor = 7]
  by simp

section \<open>The table decoder\<close>

text \<open>
  C2. A table node whose \<open>VariableNames\<close> array is empty, or is the single entry
  \<open>b"Var1"\<close>, decodes to the canonical empty table: no columns, and both metadata
  sequences empty. Nothing else of the node is assumed, so no other field of it is read
  and what it stores there has no effect. The witness is a node that stores a real column
  named \<open>Var1\<close> with two values and its metadata.
\<close>

theorem parse_empty_marker:
  assumes "getitem hdfgroup ''VariableNames'' = Inr (Dataset a dt colnames)"
    and "colnames = [] \<or> colnames = [PBytes ''Var1'']"
  shows "parse_bronhdf repr hdfgroup = Inr empty_df"
  using assms by (subst parse_bronhdf.simps) (auto simp: read_dataset_def)

theorem parse_empty_marker_witness:
  "parse_bronhdf (\<lambda>p. [])
     (Group [(''matlab_type'', ABytes ''table'')]
        [(''VariableNames'', Dataset [(''matlab_type'', ABytes ''cellstr'')] (Bytes 4) [PBytes ''Var1'']),
         (''VariableDescriptions'', Dataset [(''matlab_type'', ABytes ''cellstr'')] (Bytes 5) [PBytes ''depth'']),
         (''VariableUnits'', Dataset [(''matlab_type'', ABytes ''cellstr'')] (Bytes 1) [PBytes ''m'']),
         (''Var1'', Dataset [(''matlab_type'', ABytes ''int64'')] Int64 [PInt 3, PInt 4])])
   = Inr (DataFrame [] (Some []) (Some []))"
  using parse_empty_marker [where hdfgroup = "Group [(''matlab_type'', ABytes ''table'')]
        [(''VariableNames'', Dataset [(''matlab_type'', ABytes ''cellstr'')] (Bytes 4) [PBytes ''Var1'']),
         (''VariableDescriptions'', Dataset [(''matlab_type'', ABytes ''cellstr'')] (Bytes 5) [PBytes ''depth'']),
         (''VariableUnits'', Dataset [(''matlab_type'', ABytes ''cellstr'')] (Bytes 1) [PBytes ''m'']),
         (''Var1'', Dataset [(''matlab_type'', ABytes ''int64'')] Int64 [PInt 3, PInt 4])]"
      and repr = "\<lambda>p. []"]
  by (simp add: empty_df_def simple_name_def)

subsection \<open>The steps of the decoder\<close>

subsection \<open>The steps of the decoder\<close>

text \<open>The comprehension of a nested column and the body of the loop over the columns, as
  they stand in \<open>parse_bronhdf\<close>, and the test for the empty table: \<open>parse_bronhdf_unfold\<close>
  is the definition of \<open>parse_bronhdf\<close> written with them.\<close>

definition parse_elements :: "(prim \<Rightarrow> string) \<Rightarrow> hnode \<Rightarrow> nat \<Rightarrow> error + dataframe list" where
  "parse_elements repr node nrows =
     sequence_sum (map (\<lambda>i_row.
        case getitem node (element_name i_row) of
          Inl e \<Rightarrow> Inl e
        | Inr el \<Rightarrow> parse_bronhdf repr el) [1..<nrows + 1])"

definition parse_column :: "(prim \<Rightarrow> string) \<Rightarrow> hnode \<Rightarrow> nat \<Rightarrow> prim \<Rightarrow> error + series" where
  "parse_column repr hdfgroup nrows colname =
     (case colname of
        PBytes s \<Rightarrow>
          (case getitem hdfgroup s of
             Inl e \<Rightarrow> Inl e
           | Inr node \<Rightarrow>
              (case attrs_get node ''matlab_type'' of
                 Inl e \<Rightarrow> Inl e
               | Inr ml_type \<Rightarrow>
                  (case tag_is_not_table ml_type of
                     Inl e \<Rightarrow> Inl e
                   | Inr plain \<Rightarrow>
                       if plain then
                         (case read_all node of
                            Inl e \<Rightarrow> Inl e
                          | Inr (dt, data) \<Rightarrow> Inr (Series s dt (map Prim data)))
                       else
                         (case parse_elements repr node nrows of
                            Inl e \<Rightarrow> Inl e
                          | Inr colcontents \<Rightarrow>
                              Inr (Series s (if colcontents = [] then Float64 else Object)
                                     (map Frame colcontents))))))
      | _ \<Rightarrow> Inl H5Error)"

definition is_empty_marker :: "prim list \<Rightarrow> bool" where
  "is_empty_marker colnames \<longleftrightarrow>
     length colnames = 0 \<or> (length colnames = 1 \<and> colnames ! 0 = PBytes ''Var1'')"

lemma is_empty_marker_iff: "is_empty_marker colnames \<longleftrightarrow> colnames = [] \<or> colnames = [PBytes ''Var1'']"
  by (cases colnames) (auto simp: is_empty_marker_def)

lemma parse_bronhdf_unfold:
  "parse_bronhdf repr hdfgroup =
     (case read_dataset hdfgroup ''VariableNames'' of
        Inl e \<Rightarrow> Inl e
      | Inr (ndt, colnames) \<Rightarrow>
          if is_empty_marker colnames then Inr empty_df
          else
            (case read_metadata repr hdfgroup ''VariableDescriptions'' (length colnames) of
               Inl e \<Rightarrow> Inl e
             | Inr vd \<Rightarrow>
            (case read_metadata repr hdfgroup ''VariableUnits'' (length colnames) of
               Inl e \<Rightarrow> Inl e
             | Inr vu \<Rightarrow>
            (case find_nrows hdfgroup colnames colnames of
               Inl e \<Rightarrow> Inl e
             | Inr nrows \<Rightarrow>
            (case loop_columns (parse_column repr hdfgroup nrows) (setitem colnames) colnames [] of
               Inl e \<Rightarrow> Inl e
             | Inr cols \<Rightarrow>
                 if PBytes ''VariableDescriptions'' \<in> set colnames
                    \<or> PBytes ''VariableUnits'' \<in> set colnames
                 then Inl Unmodelled
                 else Inr (DataFrame cols (Some vd) (Some vu)))))))"
  unfolding parse_column_def [abs_def] parse_elements_def is_empty_marker_def
  by (rule parse_bronhdf.simps)

lemma parse_bronhdf_nonempty:
  assumes "read_dataset hdfgroup ''VariableNames'' = Inr (ndt, colnames)"
    and "\<not> is_empty_marker colnames"
  shows "parse_bronhdf repr hdfgroup =
            (case read_metadata repr hdfgroup ''VariableDescriptions'' (length colnames) of
               Inl e \<Rightarrow> Inl e
             | Inr vd \<Rightarrow>
            (case read_metadata repr hdfgroup ''VariableUnits'' (length colnames) of
               Inl e \<Rightarrow> Inl e
             | Inr vu \<Rightarrow>
            (case find_nrows hdfgroup colnames colnames of
               Inl e \<Rightarrow> Inl e
             | Inr nrows \<Rightarrow>
            (case loop_columns (parse_column repr hdfgroup nrows) (setitem colnames) colnames [] of
               Inl e \<Rightarrow> Inl e
             | Inr cols \<Rightarrow>
                 if PBytes ''VariableDescriptions'' \<in> set colnames
                    \<or> PBytes ''VariableUnits'' \<in> set colnames
                 then Inl Unmodelled
                 else Inr (DataFrame cols (Some vd) (Some vu))))))"
  using assms by (subst parse_bronhdf_unfold) simp

lemma sequence_sum_Inr: "sequence_sum (map Inr ys) = Inr ys"
  by (induction ys) simp_all

lemma sequence_sum_Inr_iff:
  "sequence_sum xs = Inr ys \<longleftrightarrow> xs = map Inr ys"
proof
  show "sequence_sum xs = Inr ys \<Longrightarrow> xs = map Inr ys"
    by (induction xs arbitrary: ys) (auto split: sum.splits)
qed (simp add: sequence_sum_Inr)

lemma sequence_sum_map_Inr:
  "sequence_sum (map f xs) = Inr ys \<longleftrightarrow>
     length ys = length xs \<and> (\<forall>i < length xs. f (xs ! i) = Inr (ys ! i))"
  unfolding sequence_sum_Inr_iff
  by (auto simp: list_eq_iff_nth_eq)

lemma parse_elements_length:
  "parse_elements repr node nrows = Inr tables \<Longrightarrow> length tables = nrows"
  by (simp add: parse_elements_def sequence_sum_map_Inr del: upt_Suc)

lemma setitem_Inr:
  assumes "setitem names df col = Inr df'"
  shows "df' = df @ [col]"
    and "df \<noteq> [] \<Longrightarrow> length (col_values col) = length (col_values (hd df))"
    and "count_list names (PBytes (col_name col)) = 1"
  using assms by (auto simp: setitem_def split: if_splits)

lemma loop_columns_setitem:
  assumes "loop_columns f (setitem names) cs df = Inr out"
  shows "\<exists>cols. out = df @ cols \<and> length cols = length cs
      \<and> (\<forall>i < length cs. f (cs ! i) = Inr (cols ! i))"
  using assms
proof (induction cs arbitrary: df)
  case Nil
  then show ?case by simp
next
  case (Cons c cs)
  from Cons.prems obtain col df' where
    col: "f c = Inr col" and set: "setitem names df col = Inr df'"
    and rest: "loop_columns f (setitem names) cs df' = Inr out"
    by (auto split: sum.splits)
  from Cons.IH [OF rest] obtain cols where
    cols: "out = df' @ cols" "length cols = length cs" "\<forall>i < length cs. f (cs ! i) = Inr (cols ! i)"
    by blast
  have "\<forall>i < length (c # cs). f ((c # cs) ! i) = Inr ((col # cols) ! i)"
    using col cols(3) by (auto simp: nth_Cons split: nat.splits)
  with cols setitem_Inr(1) [OF set] show ?case
    by (intro exI [of _ "col # cols"]) simp
qed

lemma loop_columns_lengths:
  assumes "loop_columns f (setitem names) cs df = Inr out"
    and "\<forall>c \<in> set df. length (col_values c) = length (col_values (hd df))"
  shows "\<forall>c \<in> set out. length (col_values c) = length (col_values (hd out))"
  using assms
proof (induction cs arbitrary: df)
  case Nil
  then show ?case by simp
next
  case (Cons c cs)
  from Cons.prems(1) obtain col df' where
    set: "setitem names df col = Inr df'"
    and rest: "loop_columns f (setitem names) cs df' = Inr out"
    by (auto split: sum.splits)
  have "\<forall>c \<in> set df'. length (col_values c) = length (col_values (hd df'))"
  proof (cases df)
    case Nil
    with setitem_Inr(1) [OF set] show ?thesis by simp
  next
    case (Cons a as)
    define n where "n = length (col_values a)"
    from Cons setitem_Inr(1,2) [OF set] have df': "df' = a # as @ [col]"
      and "length (col_values col) = n"
      by (simp_all add: n_def)
    moreover from Cons Cons.prems(2) have "\<forall>c \<in> set (a # as). length (col_values c) = n"
      by (simp add: n_def)
    moreover have "length (col_values (hd df')) = n"
      using df' by (simp add: n_def)
    ultimately show ?thesis
      by (simp only: df' set_simps set_append ball_Un ball_simps) simp
  qed
  from Cons.IH [OF rest this] show ?case .
qed

lemma parse_bronhdf_InrD:
  assumes "parse_bronhdf repr hdfgroup = Inr df"
    and "read_dataset hdfgroup ''VariableNames'' = Inr (ndt, colnames)"
    and "\<not> is_empty_marker colnames"
  obtains vd vu nrows cols where
    "read_metadata repr hdfgroup ''VariableDescriptions'' (length colnames) = Inr vd"
    "read_metadata repr hdfgroup ''VariableUnits'' (length colnames) = Inr vu"
    "find_nrows hdfgroup colnames colnames = Inr nrows"
    "loop_columns (parse_column repr hdfgroup nrows) (setitem colnames) colnames [] = Inr cols"
    "df = DataFrame cols (Some vd) (Some vu)"
  using assms(1) unfolding parse_bronhdf_nonempty [OF assms(2,3)]
  by (auto split: sum.splits if_splits)

lemma parse_bronhdf_columns:
  assumes "parse_bronhdf repr hdfgroup = Inr df"
    and "read_dataset hdfgroup ''VariableNames'' = Inr (ndt, colnames)"
    and "\<not> is_empty_marker colnames"
  obtains nrows where
    "find_nrows hdfgroup colnames colnames = Inr nrows"
    "length (df_columns df) = length colnames"
    "\<forall>i < length colnames. parse_column repr hdfgroup nrows (colnames ! i) = Inr (df_columns df ! i)"
    "\<forall>c \<in> set (df_columns df). length (col_values c) = length (col_values (hd (df_columns df)))"
proof -
  from assms obtain vd vu nrows cols where
    n: "find_nrows hdfgroup colnames colnames = Inr nrows"
    and loop: "loop_columns (parse_column repr hdfgroup nrows) (setitem colnames) colnames [] = Inr cols"
    and df: "df = DataFrame cols (Some vd) (Some vu)"
    by (rule parse_bronhdf_InrD)
  from loop_columns_setitem [OF loop] have "length cols = length colnames"
    "\<forall>i < length colnames. parse_column repr hdfgroup nrows (colnames ! i) = Inr (cols ! i)"
    by auto
  moreover from loop_columns_lengths [OF loop]
  have "\<forall>c \<in> set cols. length (col_values c) = length (col_values (hd cols))"
    by simp
  ultimately show ?thesis
    using n df by (intro that [of nrows]) simp_all
qed

lemma read_metadata_empty:
  "read_dataset hdfgroup metaname = Inr (dt, []) \<Longrightarrow>
     read_metadata repr hdfgroup metaname n = Inr (replicate n [])"
  by (simp add: read_metadata_def)

lemma read_metadata_nonempty:
  "read_dataset hdfgroup metaname = Inr (dt, data) \<Longrightarrow> data \<noteq> [] \<Longrightarrow>
     read_metadata repr hdfgroup metaname n = Inr (map (astype_bytes repr) data)"
  by (simp add: read_metadata_def)


subsection \<open>Stored tables\<close>

text \<open>\<open>example_node\<close> stores a table of two rows with a nested column \<open>t\<close>, whose tag is the
  text string, and an integer column \<open>a\<close>; its metadata arrays are empty, and the group of
  \<open>t\<close> also has children \<open>Element0\<close> and \<open>Element3\<close> that are no tables.
  \<open>example_nested_only\<close> stores a table whose only column is nested.
  \<open>example_short_metadata\<close> stores two columns and a single description.\<close>

definition cellstr_dataset :: "string list \<Rightarrow> hnode" where
  "cellstr_dataset xs = Dataset [(''matlab_type'', ABytes ''cellstr'')] (Bytes 1) (map PBytes xs)"

definition example_row :: hnode where
  "example_row =
     Group [(''matlab_type'', ABytes ''table'')]
       [(''VariableNames'', cellstr_dataset [''x'']),
        (''VariableDescriptions'', cellstr_dataset []),
        (''VariableUnits'', cellstr_dataset []),
        (''x'', Dataset [(''matlab_type'', ABytes ''int64'')] Int64 [PInt 7])]"

definition example_column_group :: hnode where
  "example_column_group =
     Group [(''matlab_type'', AStr ''table'')]
       [(''Element0'', Group [] []),
        (''Element1'', example_row),
        (''Element2'', example_row),
        (''Element3'', Group [] [])]"

definition example_node :: hnode where
  "example_node =
     Group [(''matlab_type'', ABytes ''table'')]
       [(''VariableNames'', cellstr_dataset [''t'', ''a'']),
        (''VariableDescriptions'', cellstr_dataset []),
        (''VariableUnits'', cellstr_dataset []),
        (''t'', example_column_group),
        (''a'', Dataset [(''matlab_type'', ABytes ''int64'')] Int64 [PInt 1, PInt 2])]"

definition example_row_df :: dataframe where
  "example_row_df = DataFrame [Series ''x'' Int64 [Prim (PInt 7)]] (Some [[]]) (Some [[]])"

definition example_df :: dataframe where
  "example_df =
     DataFrame
       [Series ''t'' Object [Frame example_row_df, Frame example_row_df],
        Series ''a'' Int64 [Prim (PInt 1), Prim (PInt 2)]]
       (Some [[], []]) (Some [[], []])"

definition example_nested_only :: hnode where
  "example_nested_only =
     Group [(''matlab_type'', ABytes ''table'')]
       [(''VariableNames'', cellstr_dataset [''t'']),
        (''VariableDescriptions'', cellstr_dataset []),
        (''VariableUnits'', cellstr_dataset []),
        (''t'', Group [(''matlab_type'', ABytes ''table'')] [(''Element1'', example_row)])]"

definition example_short_metadata :: hnode where
  "example_short_metadata =
     Group [(''matlab_type'', ABytes ''table'')]
       [(''VariableNames'', cellstr_dataset [''a'', ''b'']),
        (''VariableDescriptions'', Dataset [(''matlab_type'', ABytes ''cellstr'')] (Bytes 4) [PBytes ''only'']),
        (''VariableUnits'', cellstr_dataset []),
        (''a'', Dataset [(''matlab_type'', ABytes ''int64'')] Int64 [PInt 1]),
        (''b'', Dataset [(''matlab_type'', ABytes ''int64'')] Int64 [PInt 2])]"

lemma str_nat_small:
  "str_nat 0 = ''0''" "str_nat (Suc 0) = ''1''" "str_nat (Suc (Suc 0)) = ''2''"
  "str_nat (Suc (Suc (Suc 0))) = ''3''"
  by (simp_all add: str_nat.simps digit_char_def numeral_2_eq_2 [symmetric] numeral_3_eq_3 [symmetric])

lemma parse_example_row: "parse_bronhdf repr example_row = Inr example_row_df"
  by (simp add: parse_bronhdf_unfold example_row_def example_row_df_def cellstr_dataset_def
      read_dataset_def read_metadata_def is_empty_marker_def parse_column_def attrs_get_def
      setitem_def simple_name_def)

lemma parse_example_node: "parse_bronhdf repr example_node = Inr example_df"
  by (subst parse_bronhdf_unfold) (simp add: example_node_def example_column_group_def
      example_df_def cellstr_dataset_def
      read_dataset_def read_metadata_def is_empty_marker_def parse_column_def attrs_get_def
      parse_elements_def element_name_def str_nat_small parse_example_row
      setitem_def simple_name_def)

lemma example_node_facts:
  "read_dataset example_node ''VariableNames'' = Inr (Bytes 1, [PBytes ''t'', PBytes ''a''])"
  "read_dataset example_node ''VariableDescriptions'' = Inr (Bytes 1, [])"
  "read_dataset example_node ''VariableUnits'' = Inr (Bytes 1, [])"
  "\<not> is_empty_marker [PBytes ''t'', PBytes ''a'']"
  by (simp_all add: example_node_def read_dataset_def cellstr_dataset_def is_empty_marker_def
      simple_name_def)

lemma parse_example_short_metadata:
  "parse_bronhdf repr example_short_metadata =
     Inr (DataFrame [Series ''a'' Int64 [Prim (PInt 1)], Series ''b'' Int64 [Prim (PInt 2)]]
            (Some [''only'']) (Some [[], []]))"
  by (simp add: parse_bronhdf_unfold example_short_metadata_def cellstr_dataset_def
      read_dataset_def read_metadata_def is_empty_marker_def parse_column_def attrs_get_def
      setitem_def simple_name_def)

text \<open>
  C8 as stated ends with the metadata sequences always having one entry per column. The
  node \<open>example_short_metadata\<close> stores two columns, one description and no units: the
  decoded table has two columns and one description.
\<close>

theorem short_metadata_counterexample:
  "parse_bronhdf (\<lambda>p. []) example_short_metadata =
     Inr (DataFrame [Series ''a'' Int64 [Prim (PInt 1)], Series ''b'' Int64 [Prim (PInt 2)]]
            (Some [''only'']) (Some [[], []]))
   \<and> length [Series ''a'' Int64 [Prim (PInt 1)], Series ''b'' Int64 [Prim (PInt 2)]] = 2
   \<and> length [''only''] = 1"
  by (simp add: parse_example_short_metadata)

text \<open>
  C8, as amended. When the decoder reads a table that is not the empty marker, and no
  column bears the name of a metadata field: a stored \<open>VariableDescriptions\<close> array that
  is empty is replaced by one empty byte-string per column name, and the table has one
  column per column name, so the synthesized sequence has one entry per column; a stored
  array that is not empty is returned as byte-strings, entry by entry, whatever its
  length. The same holds for \<open>VariableUnits\<close>.
\<close>

theorem empty_metadata_synthesized:
  assumes "parse_bronhdf repr hdfgroup = Inr df"
    and "read_dataset hdfgroup ''VariableNames'' = Inr (ndt, colnames)"
    and "\<not> is_empty_marker colnames"
    and "PBytes ''VariableDescriptions'' \<notin> set colnames"
    and "PBytes ''VariableUnits'' \<notin> set colnames"
  shows "length (df_columns df) = length colnames
     \<and> (read_dataset hdfgroup ''VariableDescriptions'' = Inr (dtd, []) \<longrightarrow>
          VariableDescriptions df = Some (replicate (length colnames) []))
     \<and> (read_dataset hdfgroup ''VariableUnits'' = Inr (dtu, []) \<longrightarrow>
          VariableUnits df = Some (replicate (length colnames) []))
     \<and> (read_dataset hdfgroup ''VariableDescriptions'' = Inr (dtd, datad) \<and> datad \<noteq> [] \<longrightarrow>
          VariableDescriptions df = Some (map (astype_bytes repr) datad))
     \<and> (read_dataset hdfgroup ''VariableUnits'' = Inr (dtu, datau) \<and> datau \<noteq> [] \<longrightarrow>
          VariableUnits df = Some (map (astype_bytes repr) datau))"
proof -
  from assms(1-3) obtain vd vu nrows cols where
    vd: "read_metadata repr hdfgroup ''VariableDescriptions'' (length colnames) = Inr vd"
    and vu: "read_metadata repr hdfgroup ''VariableUnits'' (length colnames) = Inr vu"
    and cols: "loop_columns (parse_column repr hdfgroup nrows) (setitem colnames) colnames [] = Inr cols"
    and df: "df = DataFrame cols (Some vd) (Some vu)"
    by (rule parse_bronhdf_InrD)
  from loop_columns_setitem [OF cols] have "length cols = length colnames"
    by auto
  with vd vu df show ?thesis
    by (auto simp: read_metadata_empty read_metadata_nonempty)
qed

theorem empty_metadata_synthesized_witness:
  "parse_bronhdf (\<lambda>p. []) example_node = Inr example_df
   \<and> read_dataset example_node ''VariableNames'' = Inr (Bytes 1, [PBytes ''t'', PBytes ''a''])
   \<and> read_dataset example_node ''VariableDescriptions'' = Inr (Bytes 1, [])
   \<and> read_dataset example_node ''VariableUnits'' = Inr (Bytes 1, [])
   \<and> length (df_columns example_df) = 2
   \<and> VariableDescriptions example_df = Some [[], []]
   \<and> VariableUnits example_df = Some [[], []]"
proof -
  have names: "PBytes ''VariableDescriptions'' \<notin> set [PBytes ''t'', PBytes ''a'']"
    "PBytes ''VariableUnits'' \<notin> set [PBytes ''t'', PBytes ''a'']"
    by simp_all
  note r = empty_metadata_synthesized [where repr = "\<lambda>p. []" and dtd = "Bytes 1" and dtu = "Bytes 1",
      OF parse_example_node example_node_facts(1,4) names]
  from r show ?thesis
    by (simp add: example_node_facts parse_example_node numeral_2_eq_2)
qed


lemma find_nrows_all_groups:
  "(\<forall>c \<in> set cs. \<exists>s a ch. c = PBytes s \<and> getitem hdfgroup s = Inr (Group a ch)) \<Longrightarrow>
     find_nrows hdfgroup colnames cs = Inl (BadBronDatamodel colnames)"
  by (induction cs) auto

lemma find_nrows_first_dataset:
  assumes "j < length cs" and "cs ! j = PBytes s"
    and "getitem hdfgroup s = Inr (Dataset a dt data)"
    and "\<forall>i < j. \<exists>s' a' ch. cs ! i = PBytes s' \<and> getitem hdfgroup s' = Inr (Group a' ch)"
  shows "find_nrows hdfgroup colnames cs = Inr (length data)"
  using assms
proof (induction cs arbitrary: j)
  case Nil
  then show ?case by simp
next
  case (Cons c cs)
  show ?case
  proof (cases j)
    case 0
    with Cons.prems show ?thesis by simp
  next
    case (Suc k)
    from Cons.prems(4) Suc obtain s' a' ch where
      c: "c = PBytes s'" "getitem hdfgroup s' = Inr (Group a' ch)"
      by fastforce
    have "\<forall>i < k. \<exists>s' a' ch. cs ! i = PBytes s' \<and> getitem hdfgroup s' = Inr (Group a' ch)"
      using Cons.prems(4) Suc by fastforce
    with Cons.IH [of k] Cons.prems Suc have "find_nrows hdfgroup colnames cs = Inr (length data)"
      by simp
    with c show ?thesis by simp
  qed
qed

lemma parse_column_dataset_length:
  assumes "parse_column repr hdfgroup (length data) (PBytes s) = Inr col"
    and "getitem hdfgroup s = Inr (Dataset a dt data)"
  shows "length (col_values col) = length data"
proof -
  have "length tables = length data"
    if "parse_elements repr (Dataset a dt data) (length data) = Inr tables" for tables
    using that by (rule parse_elements_length)
  with assms show ?thesis
    by (auto simp: parse_column_def split: sum.splits if_splits)
qed

text \<open>
  C6. For a table that is not the empty marker and whose metadata arrays can be read:
  when every column is stored as a group, decoding fails with the explicit error
  \<open>BadBronDatamodel\<close> (not a \<open>KeyError\<close>); when column \<open>j\<close> is the first that is stored as
  a dataset, the columns before it being groups, the row count is the size of that
  dataset, and, when the dataset is not empty and the column names are distinct, every
  column of a decoded table has that number of rows.
\<close>

theorem row_count_from_first_dataset:
  assumes "read_dataset hdfgroup ''VariableNames'' = Inr (ndt, colnames)"
    and "\<not> is_empty_marker colnames"
    and "read_metadata repr hdfgroup ''VariableDescriptions'' (length colnames) = Inr vd"
    and "read_metadata repr hdfgroup ''VariableUnits'' (length colnames) = Inr vu"
  shows "((\<forall>c \<in> set colnames. \<exists>s a ch. c = PBytes s \<and> getitem hdfgroup s = Inr (Group a ch)) \<longrightarrow>
            parse_bronhdf repr hdfgroup = Inl (BadBronDatamodel colnames))
       \<and> (j < length colnames \<and> colnames ! j = PBytes s
            \<and> getitem hdfgroup s = Inr (Dataset a dt data)
            \<and> (\<forall>i < j. \<exists>s' a' ch. colnames ! i = PBytes s' \<and> getitem hdfgroup s' = Inr (Group a' ch)) \<longrightarrow>
            find_nrows hdfgroup colnames colnames = Inr (length data)
            \<and> (data \<noteq> [] \<and> distinct colnames \<longrightarrow>
                 (\<forall>df. parse_bronhdf repr hdfgroup = Inr df \<longrightarrow>
                    (\<forall>c \<in> set (df_columns df). length (col_values c) = length data))))"
proof (intro conjI impI allI)
  assume "\<forall>c \<in> set colnames. \<exists>s a ch. c = PBytes s \<and> getitem hdfgroup s = Inr (Group a ch)"
  then have "find_nrows hdfgroup colnames colnames = Inl (BadBronDatamodel colnames)"
    by (rule find_nrows_all_groups)
  then show "parse_bronhdf repr hdfgroup = Inl (BadBronDatamodel colnames)"
    by (simp add: parse_bronhdf_nonempty [OF assms(1,2)] assms(3,4))
next
  assume first: "j < length colnames \<and> colnames ! j = PBytes s
            \<and> getitem hdfgroup s = Inr (Dataset a dt data)
            \<and> (\<forall>i < j. \<exists>s' a' ch. colnames ! i = PBytes s' \<and> getitem hdfgroup s' = Inr (Group a' ch))"
  then show n: "find_nrows hdfgroup colnames colnames = Inr (length data)"
    by (intro find_nrows_first_dataset [of j _ s _ a dt data]) simp_all
  fix df
  assume ok: "parse_bronhdf repr hdfgroup = Inr df"
  from ok assms(1,2) obtain nrows where
    n': "find_nrows hdfgroup colnames colnames = Inr nrows"
    and len: "length (df_columns df) = length colnames"
    and cols: "\<forall>i < length colnames. parse_column repr hdfgroup nrows (colnames ! i) = Inr (df_columns df ! i)"
    and same: "\<forall>c \<in> set (df_columns df). length (col_values c) = length (col_values (hd (df_columns df)))"
    by (rule parse_bronhdf_columns)
  from n n' have nrows: "nrows = length data" by simp
  from first cols nrows have "parse_column repr hdfgroup (length data) (PBytes s) = Inr (df_columns df ! j)"
    by auto
  with first have j: "length (col_values (df_columns df ! j)) = length data"
    by (intro parse_column_dataset_length [of repr hdfgroup data s _ a dt]) simp_all
  from first len have "df_columns df ! j \<in> set (df_columns df)"
    by simp
  with same j have "length (col_values (hd (df_columns df))) = length data"
    by metis
  with same show "\<forall>c \<in> set (df_columns df). length (col_values c) = length data"
    by simp
qed

lemma example_nested_only_facts:
  "read_dataset example_nested_only ''VariableNames'' = Inr (Bytes 1, [PBytes ''t''])"
  "\<not> is_empty_marker [PBytes ''t'']"
  "read_metadata repr example_nested_only ''VariableDescriptions'' (length [PBytes ''t'']) = Inr [[]]"
  "read_metadata repr example_nested_only ''VariableUnits'' (length [PBytes ''t'']) = Inr [[]]"
  by (simp_all add: example_nested_only_def read_dataset_def read_metadata_def
      cellstr_dataset_def is_empty_marker_def simple_name_def)

lemma example_node_metadata:
  "read_metadata repr example_node ''VariableDescriptions'' (length [PBytes ''t'', PBytes ''a'']) = Inr [[], []]"
  "read_metadata repr example_node ''VariableUnits'' (length [PBytes ''t'', PBytes ''a'']) = Inr [[], []]"
  by (simp_all add: example_node_def read_dataset_def read_metadata_def cellstr_dataset_def
      simple_name_def)

theorem row_count_from_first_dataset_witness:
  "parse_bronhdf (\<lambda>p. []) example_nested_only = Inl (BadBronDatamodel [PBytes ''t''])
   \<and> find_nrows example_node [PBytes ''t'', PBytes ''a''] [PBytes ''t'', PBytes ''a''] = Inr 2
   \<and> parse_bronhdf (\<lambda>p. []) example_node = Inr example_df
   \<and> list_all (\<lambda>c. length (col_values c) = 2) (df_columns example_df)"
proof -
  note r1 = row_count_from_first_dataset [where repr = "\<lambda>p. []", OF example_nested_only_facts]
  note r2 = row_count_from_first_dataset [where repr = "\<lambda>p. []"
      and j = 1 and s = "''a''" and a = "[(''matlab_type'', ABytes ''int64'')]" and dt = Int64
      and data = "[PInt 1, PInt 2]",
      OF example_node_facts(1,4) example_node_metadata]
  have groups: "\<forall>c \<in> set [PBytes ''t'']. \<exists>s a ch. c = PBytes s
      \<and> getitem example_nested_only s = Inr (Group a ch)"
    by (simp add: example_nested_only_def simple_name_def)
  have first: "1 < length [PBytes ''t'', PBytes ''a''] \<and> [PBytes ''t'', PBytes ''a''] ! 1 = PBytes ''a''
      \<and> getitem example_node ''a'' = Inr (Dataset [(''matlab_type'', ABytes ''int64'')] Int64 [PInt 1, PInt 2])
      \<and> (\<forall>i < 1. \<exists>s' a' ch. [PBytes ''t'', PBytes ''a''] ! i = PBytes s'
            \<and> getitem example_node s' = Inr (Group a' ch))"
    by (simp add: example_node_def example_column_group_def simple_name_def)
  have more: "[PInt 1, PInt 2] \<noteq> [] \<and> distinct [PBytes ''t'', PBytes ''a'']"
    by simp
  from r1 groups have "parse_bronhdf (\<lambda>p. []) example_nested_only = Inl (BadBronDatamodel [PBytes ''t''])"
    by blast
  moreover from r2 first have "find_nrows example_node [PBytes ''t'', PBytes ''a''] [PBytes ''t'', PBytes ''a'']
        = Inr (length [PInt 1, PInt 2])"
    by blast
  moreover from r2 first more parse_example_node [of "\<lambda>p. []"]
  have "\<forall>c \<in> set (df_columns example_df). length (col_values c) = length [PInt 1, PInt 2]"
    by blast
  ultimately show ?thesis
    by (simp add: parse_example_node list_all_iff numeral_2_eq_2)
qed




section \<open>The collection decoder\<close>




















end
